theory Spec2Isabelle
  imports Complex_Main "HOL-Library.Sublist" "HOL-Library.Multiset"
    "HOL-Library.Product_Lexorder" "HOL-Library.Word"
begin

section \<open>Face recognition: data model\<close>

text \<open>
  A shallow embedding of \<^verbatim>\<open>face_recognition_app/face_recognition_model.py\<close> and of the two
  API views of \<^verbatim>\<open>face_recognition_app/views.py\<close>.

  Conventions of the embedding:
  \<^item> a frame (a NumPy array of shape (rows, cols, 3)) is a list of rows of pixels;
  \<^item> the coordinates of a box are \<open>int\<close>; the product of the two sides of a box, which
    NumPy computes in 32 bits, wraps around;
  \<^item> a floating-point number is a \<open>pyfloat\<close>: a finite value (a real number), an
    infinity or NaN, with the comparisons of Python, which are false on NaN. What the
    arithmetic of the machine decides, the rounding of the one subtraction of
    \<^verbatim>\<open>predict\<close>, the digits that formatting prints and the order in which NumPy's
    unstable sort leaves equal values, is a parameter: a field of \<open>numerics\<close>;
  \<^item> a Python string is a list of characters, one \<open>char\<close> per code point (all code
    points of the program are below 256);
  \<^item> every exception of the source is a value \<open>Inl e\<close> of the result;
  \<^item> the neural networks, the Haar cascade, the image resampling and the drawing
    primitives of OpenCV are parameters: fields of the records below.
\<close>

datatype py_error = IndexError | TypeError | Cv2Error | DecodeError | LoadError

datatype pyfloat = NaN | MInf | Fin real | PInf

text \<open>
  The position of a float in the order NumPy sorts by: minus infinity, the finite values,
  plus infinity, then NaN. Python's \<^verbatim>\<open><\<close> and \<^verbatim>\<open><=\<close> agree with it except on NaN, where
  they are false.
\<close>

fun np_key :: "pyfloat \<Rightarrow> nat \<times> real" where
  "np_key MInf = (0, 0)"
| "np_key (Fin r) = (1, r)"
| "np_key PInf = (2, 0)"
| "np_key NaN = (3, 0)"

definition flt :: "pyfloat \<Rightarrow> pyfloat \<Rightarrow> bool" where
  "flt a b = (a \<noteq> NaN \<and> b \<noteq> NaN \<and> np_key a < np_key b)"

definition fle :: "pyfloat \<Rightarrow> pyfloat \<Rightarrow> bool" where
  "fle a b = (a \<noteq> NaN \<and> b \<noteq> NaN \<and> np_key a \<le> np_key b)"

text \<open>
  What NumPy and Python compute on floats: \<open>tie_key p i\<close> ranks the index \<open>i\<close> among the
  entries of \<open>p\<close> equal to \<open>p ! i\<close> in the output of \<^verbatim>\<open>np.argsort(p)\<close> (the default sort is
  not stable, so the order of equal values is the library's choice); \<open>float32_sub\<close> is the
  subtraction of two entries of the classifier's output, rounded; \<open>percent d x\<close> is
  \<^verbatim>\<open>format(x, '.d%')\<close>.
\<close>

record numerics =
  tie_key :: "pyfloat list \<Rightarrow> nat \<Rightarrow> nat"
  float32_sub :: "pyfloat \<Rightarrow> pyfloat \<Rightarrow> pyfloat"
  percent :: "nat \<Rightarrow> pyfloat \<Rightarrow> string"

type_synonym pixel = "nat \<times> nat \<times> nat"
type_synonym image = "pixel list list"
type_synonym box = "int \<times> int \<times> int \<times> int"

record FaceRecognitionSystem =
  facenet_embeddings :: "image \<Rightarrow> pyfloat list"
  classifier_predict :: "pyfloat list \<Rightarrow> pyfloat list"
  classes :: "string list"
  detectMultiScale :: "image \<Rightarrow> box list"
  cv2_resize :: "image \<Rightarrow> image"

record AuthDecision =
  name :: string
  confidence :: pyfloat
  confidence_gap :: pyfloat
  face_detected :: bool
  face_box :: "box option"
  authorized :: bool
  top_predictions :: "(string \<times> pyfloat) list"
  rejection_reasons :: "string list"

section \<open>detect\_face\<close>

definition shape0 :: "image \<Rightarrow> nat" where
  "shape0 img = length img"

definition shape1 :: "image \<Rightarrow> nat" where
  "shape1 img = (case img of [] \<Rightarrow> 0 | r # _ \<Rightarrow> length r)"

definition cvtColor_BGR2RGB :: "image \<Rightarrow> image" where
  "cvtColor_BGR2RGB img = map (map (\<lambda>(b, g, r). (r, g, b))) img"

text \<open>
  \<^verbatim>\<open>face[2] * face[3]\<close>: the boxes are rows of a 32-bit integer array, and the product
  of two of its entries is a signed 32-bit product.
\<close>

definition area :: "box \<Rightarrow> int" where
  "area f = (case f of (x, y, w, h) \<Rightarrow> sint ((word_of_int w :: 32 word) * word_of_int h))"

text \<open>Python's \<^verbatim>\<open>max(faces, key=...)\<close>: the first box of maximal area.\<close>

fun max_by_area :: "box \<Rightarrow> box list \<Rightarrow> box" where
  "max_by_area best [] = best"
| "max_by_area best (f # fs) = max_by_area (if area best < area f then f else best) fs"

text \<open>
  A bound of a Python slice over an axis of length \<open>n\<close>: a negative bound counts from the
  end, and the result is clipped to \<open>0..n\<close>. \<open>slice_indices n a b\<close> are the indices that
  \<^verbatim>\<open>arr[a:b]\<close> reads along that axis.
\<close>

definition slice_bound :: "nat \<Rightarrow> int \<Rightarrow> nat" where
  "slice_bound n i =
     (let j = (if i < 0 then i + int n else i)
      in if j < 0 then 0 else if int n < j then n else nat j)"

definition slice_indices :: "nat \<Rightarrow> int \<Rightarrow> int \<Rightarrow> nat list" where
  "slice_indices n a b = [slice_bound n a ..< slice_bound n b]"

text \<open>The four bounds (top, left, bottom, right) of the padded crop, lines 81-85.\<close>

definition crop_bounds :: "image \<Rightarrow> box \<Rightarrow> int \<times> int \<times> int \<times> int" where
  "crop_bounds img_rgb f =
     (case f of (x, y, w, h) \<Rightarrow>
        let padding = 20;
            top' = max 0 (y - padding);
            left' = max 0 (x - padding);
            bottom' = min (int (shape0 img_rgb)) (y + h + padding);
            right' = min (int (shape1 img_rgb)) (x + w + padding)
        in (top', left', bottom', right'))"

definition crop_rows :: "image \<Rightarrow> box \<Rightarrow> nat list" where
  "crop_rows img_rgb f =
     (case crop_bounds img_rgb f of (top', left', bottom', right') \<Rightarrow>
        slice_indices (shape0 img_rgb) top' bottom')"

definition crop_cols :: "image \<Rightarrow> box \<Rightarrow> nat list" where
  "crop_cols img_rgb f =
     (case crop_bounds img_rgb f of (top', left', bottom', right') \<Rightarrow>
        slice_indices (shape1 img_rgb) left' right')"

text \<open>\<^verbatim>\<open>img_rgb[top:bottom, left:right]\<close>: the pixels at the rows and columns read.\<close>

definition face_crop :: "image \<Rightarrow> box \<Rightarrow> image" where
  "face_crop img_rgb f =
     map (\<lambda>r. map (\<lambda>c. img_rgb ! r ! c) (crop_cols img_rgb f)) (crop_rows img_rgb f)"

text \<open>
  \<^verbatim>\<open>detect_face\<close>. OpenCV raises on an empty array, in \<^verbatim>\<open>cvtColor\<close> and in
  \<^verbatim>\<open>resize\<close>. The result \<open>None\<close> is the source's \<^verbatim>\<open>(None, None)\<close>.
\<close>

definition detect_face ::
  "FaceRecognitionSystem \<Rightarrow> image \<Rightarrow> py_error + (image \<times> box) option" where
  "detect_face sys img =
     (if shape0 img = 0 \<or> shape1 img = 0 then Inl Cv2Error
      else
        (case detectMultiScale sys img of
           [] \<Rightarrow> Inr None
         | f0 # fs \<Rightarrow>
             let f = max_by_area f0 fs;
                 img_rgb = cvtColor_BGR2RGB img;
                 crop = face_crop img_rgb f
             in if shape0 crop = 0 \<or> shape1 crop = 0 then Inl Cv2Error
                else Inr (Some (cv2_resize sys crop, f))))"

section \<open>The rejection reasons\<close>

text \<open>
  The two f-strings of lines 160 and 163: a marker, the observed value with two decimals
  and the required value with none, both as percentages.
\<close>

definition confidence_too_low :: "numerics \<Rightarrow> pyfloat \<Rightarrow> pyfloat \<Rightarrow> string" where
  "confidence_too_low nm c threshold =
     ''confidence_too_low_'' @ percent nm 2 c @ ''<'' @ percent nm 0 threshold"

definition gap_too_small :: "numerics \<Rightarrow> pyfloat \<Rightarrow> pyfloat \<Rightarrow> string" where
  "gap_too_small nm g min_confidence_gap =
     ''gap_too_small_'' @ percent nm 2 g @ ''<'' @ percent nm 0 min_confidence_gap"

section \<open>predict\<close>

text \<open>
  \<^verbatim>\<open>np.argsort(prediction)\<close>, with the default kind of sort: a permutation of the
  indices of the array, in ascending order of their values. The sort is not stable: the
  order of the indices of equal values is \<open>tie_key\<close>'s, and where that does not decide
  either, their own. Every function that returns a permutation sorting the array is of
  this form, for the \<open>tie_key\<close> that ranks an index by its place in the result.
\<close>

definition argsort :: "numerics \<Rightarrow> pyfloat list \<Rightarrow> nat list" where
  "argsort nm prediction =
     sort_key (\<lambda>i. (np_key (prediction ! i), tie_key nm prediction i)) [0..<length prediction]"

text \<open>\<^verbatim>\<open>np.argsort(prediction)[-3:][::-1]\<close>\<close>

definition top_3_indices :: "numerics \<Rightarrow> pyfloat list \<Rightarrow> nat list" where
  "top_3_indices nm prediction =
     rev (let s = argsort nm prediction in drop (length s - 3) s)"

definition lookup_class :: "string list \<Rightarrow> nat \<Rightarrow> py_error + string" where
  "lookup_class cs idx = (if idx < length cs then Inr (cs ! idx) else Inl IndexError)"

fun build_top_predictions ::
  "string list \<Rightarrow> pyfloat list \<Rightarrow> nat list \<Rightarrow> py_error + (string \<times> pyfloat) list" where
  "build_top_predictions cs prediction [] = Inr []"
| "build_top_predictions cs prediction (idx # rest) =
     (case lookup_class cs idx of
        Inl e \<Rightarrow> Inl e
      | Inr c \<Rightarrow>
          (case build_top_predictions cs prediction rest of
             Inl e \<Rightarrow> Inl e
           | Inr ps \<Rightarrow> Inr ((c, prediction ! idx) # ps)))"

definition no_face_name :: string where
  "no_face_name = ''No se detect'' @ [CHR 0xF3] @ '' rostro''"

definition no_face_decision :: AuthDecision where
  "no_face_decision =
     \<lparr>name = no_face_name, confidence = Fin 0, confidence_gap = Fin 0, face_detected = False,
      face_box = None, authorized = False, top_predictions = [],
      rejection_reasons = [''no_face_detected'']\<rparr>"

text \<open>Lines 136-183 of \<^verbatim>\<open>predict\<close>: from the classifier's output to the decision.\<close>

definition decide ::
  "numerics \<Rightarrow> string list \<Rightarrow> pyfloat list \<Rightarrow> box \<Rightarrow> pyfloat \<Rightarrow> pyfloat \<Rightarrow>
   py_error + AuthDecision" where
  "decide nm cs prediction fbox threshold min_confidence_gap =
     (let top3 = top_3_indices nm prediction
      in case build_top_predictions cs prediction top3 of
           Inl e \<Rightarrow> Inl e
         | Inr tops \<Rightarrow>
             (case top3 of
                [] \<Rightarrow> Inl IndexError
              | predicted_class # others \<Rightarrow>
                  let conf = prediction ! predicted_class;
                      gap = (case others of
                               [] \<Rightarrow> conf
                             | second # _ \<Rightarrow>
                                 float32_sub nm (prediction ! predicted_class)
                                   (prediction ! second));
                      reasons =
                        (if flt conf threshold then [confidence_too_low nm conf threshold]
                         else []) @
                        (if flt gap min_confidence_gap
                         then [gap_too_small nm gap min_confidence_gap] else []);
                      auth = (length reasons = 0)
                  in Inr \<lparr>name = (if \<not> auth then ''Desconocido'' else cs ! predicted_class),
                          confidence = conf, confidence_gap = gap, face_detected = True,
                          face_box = Some fbox, authorized = auth, top_predictions = tops,
                          rejection_reasons = (if \<not> auth then reasons else [''authorized''])\<rparr>))"

definition predict ::
  "numerics \<Rightarrow> FaceRecognitionSystem \<Rightarrow> image \<Rightarrow> pyfloat \<Rightarrow> pyfloat \<Rightarrow>
   py_error + AuthDecision" where
  "predict nm sys img threshold min_confidence_gap =
     (case detect_face sys img of
        Inl e \<Rightarrow> Inl e
      | Inr None \<Rightarrow> Inr no_face_decision
      | Inr (Some (face_resized, fbox)) \<Rightarrow>
          let embedding = facenet_embeddings sys face_resized;
              prediction = classifier_predict sys embedding
          in decide nm (classes sys) prediction fbox threshold min_confidence_gap)"


definition default_min_confidence_gap :: pyfloat where
  "default_min_confidence_gap = Fin (20 / 100)"

section \<open>draw\_result\<close>

text \<open>
  The arrays live in a store: a reference is an index of the list, \<^verbatim>\<open>image.copy()\<close>
  allocates the next index, and the drawing functions of OpenCV overwrite the array they
  are given. What they paint is left to the parameters \<open>putText\<close> and \<open>rectangle\<close>.
\<close>

type_synonym color = "nat \<times> nat \<times> nat"
type_synonym point = "int \<times> int"
type_synonym store = "image list"

record cv2_drawing =
  putText :: "image \<Rightarrow> string \<Rightarrow> point \<Rightarrow> real \<Rightarrow> color \<Rightarrow> int \<Rightarrow> image"
  rectangle :: "image \<Rightarrow> point \<Rightarrow> point \<Rightarrow> color \<Rightarrow> int \<Rightarrow> image"

definition ndarray_copy :: "store \<Rightarrow> nat \<Rightarrow> store \<times> nat" where
  "ndarray_copy st a = (st @ [st ! a], length st)"

definition cv2_putText ::
  "cv2_drawing \<Rightarrow> store \<Rightarrow> nat \<Rightarrow> string \<Rightarrow> point \<Rightarrow> real \<Rightarrow> color \<Rightarrow> int \<Rightarrow> store" where
  "cv2_putText cv st a txt org scale col thickness =
     st[a := putText cv (st ! a) txt org scale col thickness]"

definition cv2_rectangle ::
  "cv2_drawing \<Rightarrow> store \<Rightarrow> nat \<Rightarrow> point \<Rightarrow> point \<Rightarrow> color \<Rightarrow> int \<Rightarrow> store" where
  "cv2_rectangle cv st a p1 p2 col thickness =
     st[a := rectangle cv (st ! a) p1 p2 col thickness]"

text \<open>
  \<^verbatim>\<open>draw_result\<close> returns the store it leaves behind and either the reference of the
  annotated copy or the exception raised (unpacking a \<^verbatim>\<open>face_box\<close> that is \<open>None\<close>).
\<close>

definition draw_result ::
  "cv2_drawing \<Rightarrow> numerics \<Rightarrow> store \<Rightarrow> nat \<Rightarrow> AuthDecision \<Rightarrow> store \<times> (py_error + nat)" where
  "draw_result cv nm st img result =
     (case ndarray_copy st img of (st1, img_copy) \<Rightarrow>
        if \<not> face_detected result
        then (cv2_putText cv st1 img_copy (name result) (10, 30) (8 / 10) (0, 0, 255) 2,
              Inr img_copy)
        else
          (case face_box result of
             None \<Rightarrow> (st1, Inl TypeError)
           | Some (x, y, w, h) \<Rightarrow>
               let col = (if authorized result then (0, 255, 0) else (0, 165, 255));
                   st2 = cv2_rectangle cv st1 img_copy (x, y) (x + w, y + h) col 2;
                   name_text = name result;
                   conf_text = ''Confianza: '' @ percent nm 1 (confidence result);
                   text_y = (if 40 < y then y - 10 else y + h + 25);
                   st3 = cv2_rectangle cv st2 img_copy (x, text_y - 25) (x + w, text_y + 5)
                           col (- 1);
                   st4 = cv2_putText cv st3 img_copy name_text (x + 5, text_y - 10) (6 / 10)
                           (255, 255, 255) 2;
                   st5 = cv2_putText cv st4 img_copy conf_text (x + 5, text_y + 5) (4 / 10)
                           (255, 255, 255) 1
               in (st5, Inr img_copy)))"

section \<open>Construction of the system\<close>

text \<open>
  \<^verbatim>\<open>FaceRecognitionSystem.__init__\<close> loads its four parts; each loader may raise. The
  constructor has two arguments, the two paths.
\<close>

record loaders =
  FaceNet :: "py_error + (image \<Rightarrow> pyfloat list)"
  load_model :: "string \<Rightarrow> py_error + (pyfloat list \<Rightarrow> pyfloat list)"
  pickle_load :: "string \<Rightarrow> py_error + string list"
  CascadeClassifier :: "image \<Rightarrow> box list"
  resize_160 :: "image \<Rightarrow> image"
  BASE_DIR :: string

definition init :: "loaders \<Rightarrow> string \<Rightarrow> string \<Rightarrow> py_error + FaceRecognitionSystem" where
  "init ld model_path label_encoder_path =
     (case FaceNet ld of
        Inl e \<Rightarrow> Inl e
      | Inr facenet_model \<Rightarrow>
          (case load_model ld model_path of
             Inl e \<Rightarrow> Inl e
           | Inr classifier_model \<Rightarrow>
               (case pickle_load ld label_encoder_path of
                  Inl e \<Rightarrow> Inl e
                | Inr label_encoder \<Rightarrow>
                    Inr \<lparr>facenet_embeddings = facenet_model,
                         classifier_predict = classifier_model,
                         classes = label_encoder,
                         detectMultiScale = CascadeClassifier ld,
                         cv2_resize = resize_160 ld\<rparr>)))"

section \<open>The API views\<close>

definition MODEL_PATH :: "loaders \<Rightarrow> string" where
  "MODEL_PATH ld = BASE_DIR ld @ ''/EntrenamientoModelo/models/best_classifier_model.h5''"

definition LABEL_ENCODER_PATH :: "loaders \<Rightarrow> string" where
  "LABEL_ENCODER_PATH ld = BASE_DIR ld @ ''/EntrenamientoModelo/models/label_encoder.pkl''"

text \<open>
  \<^verbatim>\<open>get_face_system\<close>: the module's global \<^verbatim>\<open>face_system\<close> is built on first use and
  kept; a failed construction leaves it \<open>None\<close>.
\<close>

definition get_face_system ::
  "loaders \<Rightarrow> FaceRecognitionSystem option \<Rightarrow>
   (py_error + FaceRecognitionSystem) \<times> FaceRecognitionSystem option" where
  "get_face_system ld face_system =
     (case face_system of
        Some s \<Rightarrow> (Inr s, face_system)
      | None \<Rightarrow>
          (case init ld (MODEL_PATH ld) (LABEL_ENCODER_PATH ld) of
             Inl e \<Rightarrow> (Inl e, None)
           | Inr s \<Rightarrow> (Inr s, Some s)))"

datatype json = JBool bool | JStr string | JNum pyfloat | JList "json list"
  | JObj "(string \<times> json) list"

datatype response = JsonResponse "(string \<times> json) list" nat

text \<open>
  What a view takes from outside: the \<^verbatim>\<open>image\<close> entry of the parsed request body
  (\<^verbatim>\<open>json.loads(request.body).get('image', '')\<close>), the decoding of the base64 text into a
  frame (\<open>None\<close> when OpenCV cannot decode it), the formatted current time and the text
  of an exception.
\<close>

record web_env =
  json_image :: "string \<Rightarrow> py_error + string"
  decode_image :: "string \<Rightarrow> py_error + image option"
  now_strftime :: string
  exception_str :: "py_error \<Rightarrow> string"

type_synonym session = "string \<rightharpoonup> json"

text \<open>\<^verbatim>\<open>image_data.split(',')[1]\<close>, used when the text has a comma.\<close>

definition split_comma_1 :: "string \<Rightarrow> string" where
  "split_comma_1 s =
     takeWhile (\<lambda>c. c \<noteq> CHR '','') (tl (dropWhile (\<lambda>c. c \<noteq> CHR '','') s))"

definition error_500 :: "web_env \<Rightarrow> py_error \<Rightarrow> response" where
  "error_500 env e =
     JsonResponse [(''success'', JBool False), (''error'', JStr (exception_str env e))] 500"

definition no_image_400 :: response where
  "no_image_400 =
     JsonResponse [(''success'', JBool False),
                   (''error'', JStr (''No se recibi'' @ [CHR 0xF3] @ '' imagen''))] 400"

definition undecodable_400 :: response where
  "undecodable_400 =
     JsonResponse [(''success'', JBool False),
                   (''error'', JStr ''No se pudo decodificar la imagen'')] 400"

definition json_predictions :: "(string \<times> pyfloat) list \<Rightarrow> json" where
  "json_predictions ps =
     JList (map (\<lambda>(c, p). JObj [(''class'', JStr c), (''confidence'', JNum p)]) ps)"

text \<open>The part of both views from the request body to the decoded frame.\<close>

definition read_frame :: "web_env \<Rightarrow> string \<Rightarrow> response + image" where
  "read_frame env body =
     (case json_image env body of
        Inl e \<Rightarrow> Inl (error_500 env e)
      | Inr image_data \<Rightarrow>
          if image_data = [] then Inl no_image_400
          else
            (case decode_image env
                    (if CHR '','' \<in> set image_data then split_comma_1 image_data
                     else image_data) of
               Inl e \<Rightarrow> Inl (error_500 env e)
             | Inr None \<Rightarrow> Inl undecodable_400
             | Inr (Some img) \<Rightarrow> Inr img))"

definition login_session :: "web_env \<Rightarrow> session \<Rightarrow> string \<Rightarrow> session" where
  "login_session env ses user =
     ses(''authenticated'' \<mapsto> JBool True, ''user_name'' \<mapsto> JStr user,
         ''login_time'' \<mapsto> JStr (now_strftime env))"

definition welcome_response :: "AuthDecision \<Rightarrow> response" where
  "welcome_response result =
     JsonResponse
       [(''success'', JBool True), (''authorized'', JBool True),
        (''name'', JStr (name result)), (''confidence'', JNum (confidence result)),
        (''confidence_gap'', JNum (confidence_gap result)),
        (''top_predictions'', json_predictions (top_predictions result)),
        (''rejection_reasons'', JList (map JStr (rejection_reasons result))),
        (''message'', JStr ([CHR 0xA1] @ ''Bienvenido/a '' @ name result @ ''!''))] 200"

definition denied_response :: "AuthDecision \<Rightarrow> response" where
  "denied_response result =
     JsonResponse
       [(''success'', JBool True), (''authorized'', JBool False),
        (''name'', JStr (name result)), (''confidence'', JNum (confidence result)),
        (''confidence_gap'', JNum (confidence_gap result)),
        (''top_predictions'', json_predictions (top_predictions result)),
        (''rejection_reasons'', JList (map JStr (rejection_reasons result))),
        (''message'', JStr ''Acceso denegado. Persona no reconocida.'')] 200"

text \<open>
  \<^verbatim>\<open>recognize_face\<close>, the login view: the global system, the session and the response.
\<close>

definition recognize_face ::
  "web_env \<Rightarrow> loaders \<Rightarrow> numerics \<Rightarrow> FaceRecognitionSystem option \<Rightarrow> session \<Rightarrow> string \<Rightarrow>
   response \<times> FaceRecognitionSystem option \<times> session" where
  "recognize_face env ld nm face_system ses body =
     (case get_face_system ld face_system of
        (Inl e, g) \<Rightarrow> (error_500 env e, g, ses)
      | (Inr system, g) \<Rightarrow>
          (case read_frame env body of
             Inl resp \<Rightarrow> (resp, g, ses)
           | Inr img \<Rightarrow>
               (case predict nm system img (Fin (80 / 100)) (Fin (20 / 100)) of
                  Inl e \<Rightarrow> (error_500 env e, g, ses)
                | Inr result \<Rightarrow>
                    if authorized result \<and> name result \<noteq> ''Desconocido''
                    then (welcome_response result, g, login_session env ses (name result))
                    else (denied_response result, g, ses))))"

text \<open>
  \<^verbatim>\<open>verify_face_stream\<close>, the continuous verification view: it calls
  \<^verbatim>\<open>predict(image, threshold=0.75)\<close>, so \<^verbatim>\<open>min_confidence_gap\<close> is the default.
\<close>

definition verify_face_stream ::
  "web_env \<Rightarrow> loaders \<Rightarrow> numerics \<Rightarrow> FaceRecognitionSystem option \<Rightarrow> string \<Rightarrow>
   response \<times> FaceRecognitionSystem option" where
  "verify_face_stream env ld nm face_system body =
     (case get_face_system ld face_system of
        (Inl e, g) \<Rightarrow> (error_500 env e, g)
      | (Inr system, g) \<Rightarrow>
          (case read_frame env body of
             Inl resp \<Rightarrow> (resp, g)
           | Inr img \<Rightarrow>
               (case predict nm system img (Fin (75 / 100)) default_min_confidence_gap of
                  Inl e \<Rightarrow> (error_500 env e, g)
                | Inr result \<Rightarrow>
                    (JsonResponse
                       [(''success'', JBool True), (''name'', JStr (name result)),
                        (''confidence'', JNum (confidence result)),
                        (''authorized'', JBool (authorized result)),
                        (''face_detected'', JBool (face_detected result))] 200, g))))"

section \<open>Auxiliary definitions and example inputs\<close>

text \<open>
  The confidence gap of lines 150-154, as a function of the distribution, the top index
  and the remaining top indices; used to state what \<open>decide\<close> returns.
\<close>

definition gap_of :: "numerics \<Rightarrow> pyfloat list \<Rightarrow> nat \<Rightarrow> nat list \<Rightarrow> pyfloat" where
  "gap_of nm p i rest = (case rest of [] \<Rightarrow> p ! i | j # _ \<Rightarrow> float32_sub nm (p ! i) (p ! j))"

text \<open>
  The ranking of a distribution of finite probabilities \<open>q\<close>, stated without the program:
  its values in descending order, and the gap between the first and the second of them
  as the machine subtracts them (the first itself when there is no second).
\<close>

definition ranked_probabilities :: "real list \<Rightarrow> real list" where
  "ranked_probabilities q = rev (sort q)"

definition top2_gap :: "numerics \<Rightarrow> real list \<Rightarrow> pyfloat" where
  "top2_gap nm q =
     (case ranked_probabilities q of
        [] \<Rightarrow> NaN
      | [a] \<Rightarrow> Fin a
      | a # b # _ \<Rightarrow> float32_sub nm (Fin a) (Fin b))"

text \<open>
  Example numerics: the digits of a percentage computed on the exact value (rounding
  ties to even), the exact difference of two finite values, and a sort that orders equal
  values by a given key.
\<close>

definition round_half_even :: "real \<Rightarrow> int" where
  "round_half_even x =
     (let f = \<lfloor>x\<rfloor>; d = x - of_int f
      in if d < 1 / 2 then f else if 1 / 2 < d then f + 1
         else if even f then f else f + 1)"

definition digit_char :: "nat \<Rightarrow> char" where
  "digit_char d = ''0123456789'' ! d"

fun dec_digits :: "nat \<Rightarrow> string" where
  "dec_digits n =
     (if n < 10 then [digit_char n] else dec_digits (n div 10) @ [digit_char (n mod 10)])"

declare dec_digits.simps [simp del]

definition format_fixed :: "nat \<Rightarrow> real \<Rightarrow> string" where
  "format_fixed d x =
     (let n = nat (round_half_even (\<bar>x\<bar> * 10 ^ d));
          fs = dec_digits (n mod 10 ^ d)
      in (if x < 0 then ''-'' else '''') @ dec_digits (n div 10 ^ d) @
         (if d = 0 then '''' else ''.'' @ replicate (d - length fs) (CHR ''0'') @ fs))"

definition format_percent :: "nat \<Rightarrow> pyfloat \<Rightarrow> string" where
  "format_percent d x =
     (case x of
        Fin r \<Rightarrow> format_fixed d (r * 100) @ ''%''
      | NaN \<Rightarrow> ''nan%''
      | PInf \<Rightarrow> ''inf%''
      | MInf \<Rightarrow> ''-inf%'')"

fun exact_sub :: "pyfloat \<Rightarrow> pyfloat \<Rightarrow> pyfloat" where
  "exact_sub (Fin a) (Fin b) = Fin (a - b)"
| "exact_sub NaN _ = NaN"
| "exact_sub _ NaN = NaN"
| "exact_sub PInf PInf = NaN"
| "exact_sub MInf MInf = NaN"
| "exact_sub PInf _ = PInf"
| "exact_sub MInf _ = MInf"
| "exact_sub _ PInf = MInf"
| "exact_sub _ MInf = PInf"

definition demo_numerics :: "(pyfloat list \<Rightarrow> nat \<Rightarrow> nat) \<Rightarrow> numerics" where
  "demo_numerics tie = \<lparr>tie_key = tie, float32_sub = exact_sub, percent = format_percent\<rparr>"

text \<open>
  Two sorts: \<open>stable_ties\<close> leaves equal values in index order, as a sort by insertion
  does; \<open>reversed_ties\<close> leaves them in the opposite order.
\<close>

definition stable_ties :: "pyfloat list \<Rightarrow> nat \<Rightarrow> nat" where
  "stable_ties p i = 0"

definition reversed_ties :: "pyfloat list \<Rightarrow> nat \<Rightarrow> nat" where
  "reversed_ties p i = length p - i"

text \<open>
  Example inputs: a frame of one pixel, and a system whose detector always reports the
  boxes \<open>fs\<close> and whose classifier always answers the distribution \<open>p\<close> over the labels
  \<open>cs\<close>; a frame of 100 by 100 pixels; loaders that produce such a system; a web
  environment that decodes every non-empty body to the one-pixel frame; painting
  functions that fill the whole array with the colour they are given.
\<close>

definition demo_frame :: image where
  "demo_frame = [[(10, 20, 30)]]"

definition demo_system :: "string list \<Rightarrow> real list \<Rightarrow> box list \<Rightarrow> FaceRecognitionSystem" where
  "demo_system cs q fs =
     \<lparr>facenet_embeddings = (\<lambda>_. []), classifier_predict = (\<lambda>_. map Fin q), classes = cs,
      detectMultiScale = (\<lambda>_. fs), cv2_resize = (\<lambda>i. i)\<rparr>"

definition far_frame :: image where
  "far_frame = replicate 100 (replicate 100 (0, 0, 0))"

definition demo_loaders :: "string list \<Rightarrow> real list \<Rightarrow> box list \<Rightarrow> loaders" where
  "demo_loaders cs q fs =
     \<lparr>FaceNet = Inr (\<lambda>_. []), load_model = (\<lambda>_. Inr (\<lambda>_. map Fin q)),
      pickle_load = (\<lambda>_. Inr cs), CascadeClassifier = (\<lambda>_. fs), resize_160 = (\<lambda>i. i),
      BASE_DIR = ''/srv''\<rparr>"

definition demo_env :: web_env where
  "demo_env =
     \<lparr>json_image = (\<lambda>body. Inr body), decode_image = (\<lambda>_. Inr (Some demo_frame)),
      now_strftime = ''2025-01-01 00:00:00'', exception_str = (\<lambda>_. ''error'')\<rparr>"

definition demo_drawing :: cv2_drawing where
  "demo_drawing =
     \<lparr>putText = (\<lambda>im txt org scale col thickness. map (map (\<lambda>_. col)) im),
      rectangle = (\<lambda>im p1 p2 col thickness. map (map (\<lambda>_. col)) im)\<rparr>"

section \<open>What predict returns\<close>

lemma build_top_predictions_Inr:
  "build_top_predictions cs p idxs = Inr tops \<Longrightarrow>
     tops = map (\<lambda>i. (cs ! i, p ! i)) idxs \<and> (\<forall>i\<in>set idxs. i < length cs)"
  by (induction idxs arbitrary: tops)
     (auto simp: lookup_class_def split: sum.splits if_splits)

lemma decide_Inr:
  assumes "decide nm cs p fb t g = Inr d"
  obtains i rest where
    "top_3_indices nm p = i # rest"
    "\<forall>k\<in>set (i # rest). k < length cs"
    "d = \<lparr>name = (if \<not> flt (p ! i) t \<and> \<not> flt (gap_of nm p i rest) g then cs ! i
                  else ''Desconocido''),
          confidence = p ! i, confidence_gap = gap_of nm p i rest, face_detected = True,
          face_box = Some fb,
          authorized = (\<not> flt (p ! i) t \<and> \<not> flt (gap_of nm p i rest) g),
          top_predictions = map (\<lambda>k. (cs ! k, p ! k)) (i # rest),
          rejection_reasons =
            (if \<not> flt (p ! i) t \<and> \<not> flt (gap_of nm p i rest) g then [''authorized'']
             else (if flt (p ! i) t then [confidence_too_low nm (p ! i) t] else []) @
                  (if flt (gap_of nm p i rest) g then [gap_too_small nm (gap_of nm p i rest) g]
                   else []))\<rparr>"
proof -
  obtain tops where tops: "build_top_predictions cs p (top_3_indices nm p) = Inr tops"
    using assms by (auto simp: decide_def Let_def split: sum.splits)
  obtain i rest where ir: "top_3_indices nm p = i # rest"
    using assms tops by (cases "top_3_indices nm p") (auto simp: decide_def Let_def)
  note b = build_top_predictions_Inr [OF tops]
  have "\<forall>k\<in>set (i # rest). k < length cs" using b ir by simp
  moreover have "d = \<lparr>name = (if \<not> flt (p ! i) t \<and> \<not> flt (gap_of nm p i rest) g then cs ! i
                  else ''Desconocido''),
          confidence = p ! i, confidence_gap = gap_of nm p i rest, face_detected = True,
          face_box = Some fb,
          authorized = (\<not> flt (p ! i) t \<and> \<not> flt (gap_of nm p i rest) g),
          top_predictions = map (\<lambda>k. (cs ! k, p ! k)) (i # rest),
          rejection_reasons =
            (if \<not> flt (p ! i) t \<and> \<not> flt (gap_of nm p i rest) g then [''authorized'']
             else (if flt (p ! i) t then [confidence_too_low nm (p ! i) t] else []) @
                  (if flt (gap_of nm p i rest) g then [gap_too_small nm (gap_of nm p i rest) g]
                   else []))\<rparr>"
    using assms tops ir b
    by (auto simp: decide_def Let_def gap_of_def split: list.splits)
  ultimately show ?thesis using that ir by blast
qed

lemma predict_Inr:
  assumes "predict nm sys img t g = Inr d"
  obtains (no_face) "detect_face sys img = Inr None" "d = no_face_decision"
  | (face) face fb where "detect_face sys img = Inr (Some (face, fb))"
      "decide nm (classes sys) (classifier_predict sys (facenet_embeddings sys face)) fb t g
         = Inr d"
  using assms by (auto simp: predict_def Let_def split: sum.splits option.splits)

lemma reason_neq_authorized:
  "confidence_too_low nm c t \<noteq> ''authorized''" "gap_too_small nm x y \<noteq> ''authorized''"
  by (simp_all add: confidence_too_low_def gap_too_small_def)

lemma predict_authorized_eq:
  assumes "predict nm sys img t g = Inr d"
  shows "authorized d =
           (face_detected d \<and> \<not> flt (confidence d) t \<and> \<not> flt (confidence_gap d) g)"
  using assms
proof (cases rule: predict_Inr)
  case no_face
  then show ?thesis by (simp add: no_face_decision_def)
next
  case (face face fb)
  from face(2) show ?thesis by (rule decide_Inr) simp
qed

section \<open>The ranking\<close>

lemma set_argsort: "set (argsort nm p) = {..<length p}"
  by (auto simp: argsort_def)

lemma distinct_argsort: "distinct (argsort nm p)"
  by (simp add: argsort_def)

lemma length_argsort: "length (argsort nm p) = length p"
  by (simp add: argsort_def)

lemma insort_key_lex:
  fixes f :: "nat \<Rightarrow> 'k :: linorder"
  assumes "sorted_wrt (\<lambda>a b. f a < f b \<or> (f a = f b \<and> a < b)) ys"
    and "\<forall>y\<in>set ys. a < y"
  shows "sorted_wrt (\<lambda>a b. f a < f b \<or> (f a = f b \<and> a < b)) (insort_key f a ys)"
  using assms
proof (induction ys)
  case Nil
  then show ?case by simp
next
  case (Cons y ys)
  then show ?case by (auto simp: set_insort_key)
qed

lemma sort_key_lex:
  fixes f :: "nat \<Rightarrow> 'k :: linorder"
  assumes "sorted_wrt (<) xs"
  shows "sorted_wrt (\<lambda>a b. f a < f b \<or> (f a = f b \<and> a < b)) (sort_key f xs)"
  using assms
proof (induction xs)
  case Nil
  then show ?case by simp
next
  case (Cons a xs)
  then show ?case by (auto intro!: insort_key_lex)
qed

lemma argsort_lex:
  "sorted_wrt
     (\<lambda>a b. (np_key (p ! a), tie_key nm p a) < (np_key (p ! b), tie_key nm p b) \<or>
            ((np_key (p ! a), tie_key nm p a) = (np_key (p ! b), tie_key nm p b) \<and> a < b))
     (argsort nm p)"
  unfolding argsort_def by (rule sort_key_lex) simp

lemma top_3_indices_lex:
  "sorted_wrt
     (\<lambda>a b. (np_key (p ! b), tie_key nm p b) < (np_key (p ! a), tie_key nm p a) \<or>
            ((np_key (p ! a), tie_key nm p a) = (np_key (p ! b), tie_key nm p b) \<and> b < a))
     (top_3_indices nm p)"
proof -
  have "sorted_wrt
     (\<lambda>a b. (np_key (p ! a), tie_key nm p a) < (np_key (p ! b), tie_key nm p b) \<or>
            ((np_key (p ! a), tie_key nm p a) = (np_key (p ! b), tie_key nm p b) \<and> a < b))
          (drop (length (argsort nm p) - 3) (argsort nm p))"
    by (rule sorted_wrt_drop [OF argsort_lex])
  then show ?thesis
    unfolding top_3_indices_def Let_def sorted_wrt_rev
    by (rule sorted_wrt_mono_rel [rotated]) auto
qed

lemma length_top_3_indices: "length (top_3_indices nm p) = min 3 (length p)"
  by (auto simp: top_3_indices_def Let_def length_argsort)

lemma distinct_top_3_indices: "distinct (top_3_indices nm p)"
  by (simp add: top_3_indices_def Let_def distinct_argsort)

lemma set_top_3_indices: "set (top_3_indices nm p) \<subseteq> {..<length p}"
  using set_drop_subset [of "length (argsort nm p) - 3" "argsort nm p"]
  by (simp add: top_3_indices_def Let_def set_argsort)

lemma distinct_bounded_length:
  assumes "distinct xs" and "\<forall>k\<in>set xs. k < (n::nat)"
  shows "length xs \<le> n"
proof -
  have "card (set xs) \<le> card {..<n}"
    using assms(2) by (intro card_mono) auto
  then show ?thesis using assms(1) by (simp add: distinct_card)
qed

text \<open>On finite values the sort of the indices is the sort of the values.\<close>

lemma map_nth_argsort: "map ((!) q) (argsort nm (map Fin q)) = sort q"
proof -
  let ?p = "map Fin q"
  let ?s = "argsort nm ?p"
  let ?K = "\<lambda>i. (np_key (?p ! i), tie_key nm ?p i)"
  have perm: "mset ?s = mset [0..<length q]"
    by (simp add: argsort_def)
  have "mset (map ((!) q) ?s) = image_mset ((!) q) (mset ?s)" by simp
  also have "\<dots> = mset (map ((!) q) [0..<length q])" unfolding perm by simp
  also have "\<dots> = mset q" by (simp add: map_nth)
  finally have m: "mset (map ((!) q) ?s) = mset q" .
  have "sorted (map ?K ?s)" unfolding argsort_def by simp
  then have "sorted_wrt (\<lambda>a b. ?K a \<le> ?K b) ?s" by (simp add: sorted_map)
  then have "sorted_wrt (\<lambda>a b. q ! a \<le> q ! b) ?s"
  proof (rule sorted_wrt_mono_rel [rotated])
    fix a b assume "a \<in> set ?s" "b \<in> set ?s" "?K a \<le> ?K b"
    then show "q ! a \<le> q ! b"
      by (auto simp: set_argsort less_eq_prod_def less_prod_def)
  qed
  then have "sorted (map ((!) q) ?s)" by (simp add: sorted_map)
  with m show ?thesis by (metis properties_for_sort)
qed

lemma map_nth_top_3_indices:
  "map ((!) q) (top_3_indices nm (map Fin q)) = take 3 (ranked_probabilities q)"
proof -
  have "map ((!) q) (top_3_indices nm (map Fin q)) =
          rev (drop (length q - 3) (map ((!) q) (argsort nm (map Fin q))))"
    by (simp add: top_3_indices_def Let_def length_argsort rev_map drop_map)
  also have "\<dots> = rev (drop (length (sort q) - 3) (sort q))"
    by (simp add: map_nth_argsort)
  also have "\<dots> = take 3 (rev (sort q))"
    by (simp add: take_rev)
  finally show ?thesis by (simp add: ranked_probabilities_def)
qed

lemma ranked_probabilities_hd_max:
  assumes "x \<in> set q"
  shows "x \<le> hd (ranked_probabilities q)"
proof -
  have x: "x \<in> set (ranked_probabilities q)"
    using assms by (simp add: ranked_probabilities_def)
  then obtain y ys where r: "ranked_probabilities q = y # ys"
    by (cases "ranked_probabilities q") auto
  have "sorted_wrt (\<lambda>a b. b \<le> a) (ranked_probabilities q)"
    using sorted_sort [of q] by (simp add: ranked_probabilities_def sorted_wrt_rev)
  then show ?thesis using x unfolding r by auto
qed

text \<open>What a returned decision reports of a distribution of finite probabilities.\<close>

lemma decide_finite:
  assumes "decide nm cs (map Fin q) fb t g = Inr d"
  shows "confidence d = Fin (hd (ranked_probabilities q)) \<and>
         confidence_gap d = top2_gap nm q \<and>
         q ! hd (top_3_indices nm (map Fin q)) = hd (ranked_probabilities q) \<and>
         hd (top_3_indices nm (map Fin q)) < length q \<and>
         name d = (if authorized d then cs ! hd (top_3_indices nm (map Fin q))
                   else ''Desconocido'')"
proof -
  let ?p = "map Fin q"
  from assms obtain i rest where ir: "top_3_indices nm ?p = i # rest"
    and conf: "confidence d = ?p ! i" and gap: "confidence_gap d = gap_of nm ?p i rest"
    and nme: "name d = (if authorized d then cs ! i else ''Desconocido'')"
    by (rule decide_Inr) simp
  have il: "i < length q" and rl: "\<forall>j\<in>set rest. j < length q"
    using set_top_3_indices [of nm ?p] ir by auto
  have vals: "take 3 (ranked_probabilities q) = q ! i # map ((!) q) rest"
    using map_nth_top_3_indices [of q nm] ir by simp
  then obtain a r where ar: "ranked_probabilities q = a # r"
    by (cases "ranked_probabilities q") auto
  have a: "q ! i = a" and r: "take 2 r = map ((!) q) rest"
    using vals unfolding ar by simp_all
  have hd: "q ! i = hd (ranked_probabilities q)"
    using a ar by simp
  have g: "gap_of nm ?p i rest = top2_gap nm q"
  proof (cases rest)
    case Nil
    then have "r = []" using r by simp
    then show ?thesis using Nil a ar il by (simp add: gap_of_def top2_gap_def)
  next
    case (Cons j rest')
    have jl: "j < length q" using rl Cons by simp
    obtain b r' where br: "r = b # r'"
      using r Cons by (cases r) auto
    have "q ! j = b" using r Cons br by simp
    then show ?thesis using Cons a ar br il jl by (simp add: gap_of_def top2_gap_def)
  qed
  show ?thesis using conf gap g hd il ir nme by simp
qed

section \<open>The crop of detect\_face\<close>

lemma slice_bound_le: "slice_bound n i \<le> n"
  unfolding slice_bound_def Let_def by (simp split: if_splits) linarith

lemma slice_indices_bound: "k \<in> set (slice_indices n a b) \<Longrightarrow> k < n"
  using slice_bound_le [of n b] by (simp add: slice_indices_def)

lemma shape_cvtColor_BGR2RGB:
  "shape0 (cvtColor_BGR2RGB img) = shape0 img" "shape1 (cvtColor_BGR2RGB img) = shape1 img"
  by (simp_all add: shape0_def shape1_def cvtColor_BGR2RGB_def split: list.splits)

lemma crop_rows_bound: "r \<in> set (crop_rows im f) \<Longrightarrow> r < shape0 im"
  by (auto simp: crop_rows_def split: prod.splits dest: slice_indices_bound)

lemma crop_cols_bound: "c \<in> set (crop_cols im f) \<Longrightarrow> c < shape1 im"
  by (auto simp: crop_cols_def split: prod.splits dest: slice_indices_bound)

lemma crop_bounds_clamped:
  "crop_bounds im f = (t, l, b, r) \<Longrightarrow>
     0 \<le> t \<and> 0 \<le> l \<and> b \<le> int (shape0 im) \<and> r \<le> int (shape1 im)"
  by (cases f) (auto simp: crop_bounds_def Let_def)

section \<open>The views on a decoded frame\<close>

lemma verify_face_stream_Inr:
  assumes "read_frame env body = Inr img"
    and "predict nm sys img (Fin (75 / 100)) (Fin (20 / 100)) = Inr d"
  shows "verify_face_stream env ld nm (Some sys) body =
           (JsonResponse
              [(''success'', JBool True), (''name'', JStr (name d)),
               (''confidence'', JNum (confidence d)),
               (''authorized'', JBool (authorized d)),
               (''face_detected'', JBool (face_detected d))] 200, Some sys)"
  using assms
  by (simp add: verify_face_stream_def get_face_system_def default_min_confidence_gap_def)

lemma recognize_face_Inr:
  assumes "read_frame env body = Inr img"
    and "predict nm sys img (Fin (80 / 100)) (Fin (20 / 100)) = Inr d"
  shows "recognize_face env ld nm (Some sys) ses body =
           (if authorized d \<and> name d \<noteq> ''Desconocido''
            then (welcome_response d, Some sys, login_session env ses (name d))
            else (denied_response d, Some sys, ses))"
  using assms by (simp add: recognize_face_def get_face_system_def)

section \<open>The model on the example inputs\<close>

lemmas predict_eval =
  predict_def detect_face_def shape0_def shape1_def face_crop_def crop_rows_def crop_cols_def
  crop_bounds_def slice_indices_def slice_bound_def cvtColor_BGR2RGB_def decide_def
  top_3_indices_def argsort_def lookup_class_def Let_def demo_system_def demo_frame_def
  flt_def

lemma demo_numerics_sel:
  "tie_key (demo_numerics tie) = tie" "float32_sub (demo_numerics tie) = exact_sub"
  "percent (demo_numerics tie) = format_percent"
  by (simp_all add: demo_numerics_def)

lemma demo_detect:
  "detect_face (demo_system cs q [(0, 0, 1, 1)]) demo_frame =
     Inr (Some ([[(30, 20, 10)]], (0, 0, 1, 1)))"
  by (simp add: predict_eval)

lemma demo_percent:
  "format_percent 2 (Fin (3 / 20)) = ''15.00%''"
  "format_percent 0 (Fin (1 / 5)) = ''20%''"
  "format_percent 2 (Fin (23 / 25)) = ''92.00%''"
  "format_percent 0 (Fin 2) = ''200%''"
  "format_percent 2 (Fin (3 / 10)) = ''30.00%''"
  "format_percent 0 (Fin (4 / 5)) = ''80%''"
  "format_percent 2 (Fin 0) = ''0.00%''"
  "format_percent 2 (Fin (1 / 2)) = ''50.00%''"
  by code_simp+

lemma demo_predict_alice:
  "predict (demo_numerics stable_ties)
     (demo_system [''Alice'', ''Bob'', ''Carol''] [92 / 100, 5 / 100, 3 / 100] [(0, 0, 1, 1)])
     demo_frame (Fin (80 / 100)) (Fin (20 / 100)) =
   Inr \<lparr>name = ''Alice'', confidence = Fin (92 / 100), confidence_gap = Fin (87 / 100),
        face_detected = True, face_box = Some (0, 0, 1, 1), authorized = True,
        top_predictions =
          [(''Alice'', Fin (92 / 100)), (''Bob'', Fin (5 / 100)), (''Carol'', Fin (3 / 100))],
        rejection_reasons = [''authorized'']\<rparr>"
  by (simp add: predict_eval demo_numerics_sel stable_ties_def)

lemma demo_predict_tie:
  "predict (demo_numerics stable_ties)
     (demo_system [''Alice'', ''Bob''] [1 / 2, 1 / 2] [(0, 0, 1, 1)])
     demo_frame (Fin (80 / 100)) (Fin (20 / 100)) =
   Inr \<lparr>name = ''Desconocido'', confidence = Fin (1 / 2), confidence_gap = Fin 0,
        face_detected = True, face_box = Some (0, 0, 1, 1), authorized = False,
        top_predictions = [(''Bob'', Fin (1 / 2)), (''Alice'', Fin (1 / 2))],
        rejection_reasons = [''confidence_too_low_50.00%<80%'', ''gap_too_small_0.00%<20%'']\<rparr>"
  by (simp add: predict_eval demo_numerics_sel stable_ties_def confidence_too_low_def
        gap_too_small_def demo_percent)

lemma demo_predict_tie_reversed:
  "predict (demo_numerics reversed_ties)
     (demo_system [''Alice'', ''Bob''] [1 / 2, 1 / 2] [(0, 0, 1, 1)])
     demo_frame (Fin (80 / 100)) (Fin (20 / 100)) =
   Inr \<lparr>name = ''Desconocido'', confidence = Fin (1 / 2), confidence_gap = Fin 0,
        face_detected = True, face_box = Some (0, 0, 1, 1), authorized = False,
        top_predictions = [(''Alice'', Fin (1 / 2)), (''Bob'', Fin (1 / 2))],
        rejection_reasons = [''confidence_too_low_50.00%<80%'', ''gap_too_small_0.00%<20%'']\<rparr>"
  by (simp add: predict_eval demo_numerics_sel reversed_ties_def confidence_too_low_def
        gap_too_small_def demo_percent)

lemma demo_predict_gap:
  "t = 75 / 100 \<or> t = 80 / 100 \<Longrightarrow>
   predict (demo_numerics stable_ties)
     (demo_system [''Alice'', ''Bob'', ''Carol''] [85 / 100, 70 / 100, 2 / 100] [(0, 0, 1, 1)])
     demo_frame (Fin t) (Fin (20 / 100)) =
   Inr \<lparr>name = ''Desconocido'', confidence = Fin (85 / 100), confidence_gap = Fin (15 / 100),
        face_detected = True, face_box = Some (0, 0, 1, 1), authorized = False,
        top_predictions =
          [(''Alice'', Fin (85 / 100)), (''Bob'', Fin (70 / 100)), (''Carol'', Fin (2 / 100))],
        rejection_reasons = [''gap_too_small_15.00%<20%'']\<rparr>"
  by (auto simp add: predict_eval demo_numerics_sel stable_ties_def gap_too_small_def
        demo_percent)

lemma demo_predict_single:
  "predict (demo_numerics stable_ties) (demo_system [''Alice''] [9 / 10] [(0, 0, 1, 1)])
     demo_frame (Fin (80 / 100)) (Fin (20 / 100)) =
   Inr \<lparr>name = ''Alice'', confidence = Fin (9 / 10), confidence_gap = Fin (9 / 10),
        face_detected = True, face_box = Some (0, 0, 1, 1), authorized = True,
        top_predictions = [(''Alice'', Fin (9 / 10))], rejection_reasons = [''authorized'']\<rparr>"
  by (simp add: predict_eval demo_numerics_sel stable_ties_def)

lemma demo_predict_four:
  "predict (demo_numerics reversed_ties)
     (demo_system [''Alice'', ''Bob'', ''Carol'', ''Dora''] [3 / 10, 3 / 10, 1 / 10, 3 / 10]
       [(0, 0, 1, 1)]) demo_frame (Fin (80 / 100)) (Fin (20 / 100)) =
   Inr \<lparr>name = ''Desconocido'', confidence = Fin (3 / 10), confidence_gap = Fin 0,
        face_detected = True, face_box = Some (0, 0, 1, 1), authorized = False,
        top_predictions =
          [(''Alice'', Fin (3 / 10)), (''Bob'', Fin (3 / 10)), (''Dora'', Fin (3 / 10))],
        rejection_reasons = [''confidence_too_low_30.00%<80%'', ''gap_too_small_0.00%<20%'']\<rparr>"
  by (simp add: predict_eval demo_numerics_sel reversed_ties_def confidence_too_low_def
        gap_too_small_def demo_percent)


lemma demo_predict_sentinel_label:
  "predict (demo_numerics stable_ties)
     (demo_system [''Desconocido'', ''Bob''] [7 / 8, 1 / 8] [(0, 0, 1, 1)])
     demo_frame (Fin (80 / 100)) (Fin (20 / 100)) =
   Inr \<lparr>name = ''Desconocido'', confidence = Fin (7 / 8), confidence_gap = Fin (6 / 8),
        face_detected = True, face_box = Some (0, 0, 1, 1), authorized = True,
        top_predictions = [(''Desconocido'', Fin (7 / 8)), (''Bob'', Fin (1 / 8))],
        rejection_reasons = [''authorized'']\<rparr>"
  by (simp add: predict_eval demo_numerics_sel stable_ties_def)

lemma demo_system_sel:
  "classifier_predict (demo_system cs q fs) e = map Fin q" "classes (demo_system cs q fs) = cs"
  "detectMultiScale (demo_system cs q fs) im = fs"
  "facenet_embeddings (demo_system cs q fs) im = []"
  by (simp_all add: demo_system_def)

lemma demo_read_frame: "read_frame demo_env ''frame'' = Inr demo_frame"
  by (simp add: read_frame_def demo_env_def)

lemma far_frame_shape: "shape0 far_frame = 100" "shape1 far_frame = 100"
  by (simp_all add: far_frame_def shape0_def shape1_def numeral_eq_Suc)

lemma far_frame_bounds:
  "crop_bounds (cvtColor_BGR2RGB far_frame) (35, 5, 60, 60) = (0, 15, 85, 100)"
  by (simp add: crop_bounds_def shape_cvtColor_BGR2RGB far_frame_shape)

lemma demo_draw_no_face:
  "draw_result demo_drawing (demo_numerics stable_ties) [demo_frame] 0 no_face_decision =
     ([demo_frame, [[(0, 0, 255)]]], Inr 1)"
  by (simp add: draw_result_def ndarray_copy_def cv2_putText_def demo_drawing_def
        no_face_decision_def demo_frame_def)

lemma demo_draw_face:
  "draw_result demo_drawing (demo_numerics stable_ties) [demo_frame] 0
     \<lparr>name = ''Alice'', confidence = Fin (92 / 100), confidence_gap = Fin (87 / 100),
      face_detected = True, face_box = Some (0, 0, 1, 1), authorized = True,
      top_predictions =
        [(''Alice'', Fin (92 / 100)), (''Bob'', Fin (5 / 100)), (''Carol'', Fin (3 / 100))],
      rejection_reasons = [''authorized'']\<rparr> =
     ([demo_frame, [[(255, 255, 255)]]], Inr 1)"
  by (simp add: draw_result_def ndarray_copy_def cv2_putText_def cv2_rectangle_def
        demo_drawing_def demo_frame_def Let_def)

lemma demo_ranked:
  "ranked_probabilities [85 / 100, 70 / 100, 2 / 100] = [85 / 100, 70 / 100, 2 / 100]"
  "ranked_probabilities [3 / 10, 3 / 10, 1 / 10, 3 / 10] = [3 / 10, 3 / 10, 3 / 10, 1 / 10]"
  "ranked_probabilities [92 / 100, 5 / 100, 3 / 100] = [92 / 100, 5 / 100, 3 / 100]"
  by (simp_all add: ranked_probabilities_def)

text \<open>
  A classifier that answers NaN: both comparisons of \<^verbatim>\<open>predict\<close> are false, and the
  decision is authorized.
\<close>

lemma demo_predict_nan:
  "t = 75 / 100 \<or> t = 80 / 100 \<Longrightarrow>
   predict (demo_numerics stable_ties)
     ((demo_system [''Alice''] [] [(0, 0, 1, 1)])\<lparr>classifier_predict := (\<lambda>_. [NaN])\<rparr>)
     demo_frame (Fin t) (Fin (20 / 100)) =
   Inr \<lparr>name = ''Alice'', confidence = NaN, confidence_gap = NaN,
        face_detected = True, face_box = Some (0, 0, 1, 1), authorized = True,
        top_predictions = [(''Alice'', NaN)], rejection_reasons = [''authorized'']\<rparr>"
  by (auto simp add: predict_eval demo_numerics_sel stable_ties_def)

section \<open>The claims\<close>

text \<open>
  Claim C1. Whenever \<^verbatim>\<open>predict\<close> returns a decision, \<open>authorized\<close> holds exactly when
  \<open>rejection_reasons\<close> is the one-element list \<open>[''authorized'']\<close>; every other decision is
  unauthorized and carries one or two reasons; the list of reasons is never empty.
\<close>

theorem predict_authorized_iff_sentinel:
  assumes "predict nm sys img threshold min_confidence_gap = Inr d"
  shows "(authorized d \<longleftrightarrow> rejection_reasons d = [''authorized'']) \<and>
         (rejection_reasons d \<noteq> [''authorized''] \<longrightarrow>
            \<not> authorized d \<and>
            (length (rejection_reasons d) = 1 \<or> length (rejection_reasons d) = 2)) \<and>
         rejection_reasons d \<noteq> []"
  using assms
proof (cases rule: predict_Inr)
  case no_face
  then show ?thesis by (simp add: no_face_decision_def)
next
  case (face face fb)
  from face(2) show ?thesis
    by (rule decide_Inr) (auto simp: reason_neq_authorized)
qed

theorem predict_authorized_iff_sentinel_witness:
  "(case predict (demo_numerics stable_ties)
           (demo_system [''Alice'', ''Bob'', ''Carol''] [92 / 100, 5 / 100, 3 / 100]
              [(0, 0, 1, 1)]) demo_frame (Fin (80 / 100)) (Fin (20 / 100)) of
      Inl e \<Rightarrow> False
    | Inr d \<Rightarrow> authorized d \<and> rejection_reasons d = [''authorized'']) \<and>
   (case predict (demo_numerics stable_ties)
           (demo_system [''Alice'', ''Bob''] [1 / 2, 1 / 2] [(0, 0, 1, 1)])
           demo_frame (Fin (80 / 100)) (Fin (20 / 100)) of
      Inl e \<Rightarrow> False
    | Inr d \<Rightarrow> \<not> authorized d \<and> length (rejection_reasons d) = 2 \<and>
               rejection_reasons d \<noteq> [''authorized''])"
  using predict_authorized_iff_sentinel [OF demo_predict_alice]
    predict_authorized_iff_sentinel [OF demo_predict_tie]
  unfolding demo_predict_alice demo_predict_tie by simp

text \<open>
  Claim C2. On a (non-empty) frame in which the detector finds no face, \<^verbatim>\<open>predict\<close>
  returns exactly the short-circuit decision: the no-face name, confidence 0, gap 0,
  no face detected, no box, not authorized, no top predictions, and the single reason
  \<open>no_face_detected\<close>.
\<close>

theorem predict_no_face:
  assumes "0 < shape0 img" and "0 < shape1 img" and "detectMultiScale sys img = []"
  shows "predict nm sys img threshold min_confidence_gap =
           Inr \<lparr>name = ''No se detect'' @ [CHR 0xF3] @ '' rostro'', confidence = Fin 0,
                confidence_gap = Fin 0, face_detected = False, face_box = None,
                authorized = False, top_predictions = [],
                rejection_reasons = [''no_face_detected'']\<rparr>"
  using assms
  by (simp add: predict_def detect_face_def no_face_decision_def no_face_name_def)

theorem predict_no_face_witness:
  "0 < shape0 demo_frame \<and> 0 < shape1 demo_frame \<and>
   detectMultiScale (demo_system [''Alice''] [1] []) demo_frame = [] \<and>
   predict (demo_numerics stable_ties) (demo_system [''Alice''] [1] []) demo_frame
       (Fin (80 / 100)) (Fin (20 / 100)) =
     Inr \<lparr>name = ''No se detect'' @ [CHR 0xF3] @ '' rostro'', confidence = Fin 0,
          confidence_gap = Fin 0, face_detected = False, face_box = None,
          authorized = False, top_predictions = [],
          rejection_reasons = [''no_face_detected'']\<rparr>"
proof -
  have 1: "0 < shape0 demo_frame" and 2: "0 < shape1 demo_frame"
    by (simp_all add: shape0_def shape1_def demo_frame_def)
  have 3: "detectMultiScale (demo_system [''Alice''] [1] []) demo_frame = []"
    by (simp add: demo_system_def)
  from predict_no_face [OF 1 2 3, of "demo_numerics stable_ties" "Fin (80 / 100)"
      "Fin (20 / 100)"] 1 2 3
  show ?thesis by simp
qed

text \<open>
  Claim C3, as amended. For a distribution \<open>q\<close> of finite probabilities, when a face is
  detected and \<^verbatim>\<open>predict\<close> returns, \<open>top_predictions\<close> pairs each of the top three indices
  with its label and its probability; the probabilities are the three largest of \<open>q\<close>
  in descending order; there are at most 3 entries and at most as many as labels, of
  distinct indices. The program has no tie-break of its own: equal probabilities come in
  the order in which NumPy's unstable sort left them, reversed. For a given NumPy the
  result is a function of the input. The example after the theorem shows the claim as
  written, ties in registration order, to fail under a sort that keeps equal values in
  index order (of two labels at 1/2 each the second registered is ranked first), and
  to hold on the same input under a sort that leaves them in the opposite order.
\<close>

theorem top_predictions_ranked:
  assumes "detect_face sys img = Inr (Some (face, fb))"
    and "classifier_predict sys (facenet_embeddings sys face) = map Fin q"
    and "predict nm sys img threshold min_confidence_gap = Inr d"
  shows "top_predictions d =
           map (\<lambda>k. (classes sys ! k, Fin (q ! k))) (top_3_indices nm (map Fin q)) \<and>
         map snd (top_predictions d) = map Fin (take 3 (ranked_probabilities q)) \<and>
         sorted_wrt (\<lambda>a b. fle (snd b) (snd a)) (top_predictions d) \<and>
         length (top_predictions d) \<le> 3 \<and>
         length (top_predictions d) \<le> length (classes sys) \<and>
         distinct (top_3_indices nm (map Fin q)) \<and>
         list_all (\<lambda>k. k < length q) (top_3_indices nm (map Fin q)) \<and>
         sorted_wrt
           (\<lambda>i j. q ! i = q ! j \<longrightarrow>
                  tie_key nm (map Fin q) j < tie_key nm (map Fin q) i \<or>
                  (tie_key nm (map Fin q) j = tie_key nm (map Fin q) i \<and> j < i))
           (top_3_indices nm (map Fin q))"
proof -
  let ?p = "map Fin q"
  let ?t = "top_3_indices nm ?p"
  have dec: "decide nm (classes sys) ?p fb threshold min_confidence_gap = Inr d"
    using assms by (simp add: predict_def Let_def)
  from dec obtain i rest where ir: "?t = i # rest"
    and bound: "\<forall>k\<in>set (i # rest). k < length (classes sys)"
    and tops: "top_predictions d = map (\<lambda>k. (classes sys ! k, ?p ! k)) (i # rest)"
    by (rule decide_Inr) simp
  have inq: "\<forall>k\<in>set ?t. k < length q"
    using set_top_3_indices [of nm ?p] by auto
  have 1: "top_predictions d = map (\<lambda>k. (classes sys ! k, Fin (q ! k))) ?t"
    using tops ir inq by simp
  have "map snd (top_predictions d) = map Fin (map ((!) q) ?t)"
    unfolding 1 by (simp add: comp_def)
  then have 2: "map snd (top_predictions d) = map Fin (take 3 (ranked_probabilities q))"
    by (simp add: map_nth_top_3_indices)
  have "sorted_wrt (\<lambda>a b. b \<le> a) (ranked_probabilities q)"
    using sorted_sort [of q] by (simp add: ranked_probabilities_def sorted_wrt_rev)
  then have "sorted_wrt (\<lambda>a b. b \<le> a) (take 3 (ranked_probabilities q))"
    by (rule sorted_wrt_take)
  then have "sorted_wrt (\<lambda>a b. fle b a) (map Fin (take 3 (ranked_probabilities q)))"
    by (simp add: sorted_wrt_map fle_def)
  then have "sorted_wrt (\<lambda>a b. fle b a) (map snd (top_predictions d))"
    by (simp only: 2)
  then have 3: "sorted_wrt (\<lambda>a b. fle (snd b) (snd a)) (top_predictions d)"
    by (simp add: sorted_wrt_map)
  have 4: "length (top_predictions d) \<le> 3"
    unfolding 1 by (simp add: length_top_3_indices)
  have 5: "length (top_predictions d) \<le> length (classes sys)"
    unfolding 1 using distinct_bounded_length [OF distinct_top_3_indices [of nm ?p]] bound ir
    by simp
  have 6: "list_all (\<lambda>k. k < length q) ?t"
    using inq by (simp add: list_all_iff)
  have 7: "sorted_wrt
           (\<lambda>i j. q ! i = q ! j \<longrightarrow>
                  tie_key nm ?p j < tie_key nm ?p i \<or>
                  (tie_key nm ?p j = tie_key nm ?p i \<and> j < i)) ?t"
    using top_3_indices_lex [of ?p nm]
  proof (rule sorted_wrt_mono_rel [rotated])
    fix a b
    assume a: "a \<in> set ?t" and b: "b \<in> set ?t"
      and lex: "(np_key (?p ! b), tie_key nm ?p b) < (np_key (?p ! a), tie_key nm ?p a) \<or>
        ((np_key (?p ! a), tie_key nm ?p a) = (np_key (?p ! b), tie_key nm ?p b) \<and> b < a)"
    have "?p ! a = Fin (q ! a)" "?p ! b = Fin (q ! b)" using a b inq by simp_all
    then show "q ! a = q ! b \<longrightarrow>
                  tie_key nm ?p b < tie_key nm ?p a \<or>
                  (tie_key nm ?p b = tie_key nm ?p a \<and> b < a)"
      using lex by (auto simp: less_prod_def)
  qed
  show ?thesis using 1 2 3 4 5 6 7 distinct_top_3_indices [of nm ?p] by blast
qed

theorem tie_order_counterexample:
  "classes (demo_system [''Alice'', ''Bob''] [1 / 2, 1 / 2] [(0, 0, 1, 1)]) = [''Alice'', ''Bob''] \<and>
   predict (demo_numerics stable_ties)
     (demo_system [''Alice'', ''Bob''] [1 / 2, 1 / 2] [(0, 0, 1, 1)])
     demo_frame (Fin (80 / 100)) (Fin (20 / 100)) =
   Inr \<lparr>name = ''Desconocido'', confidence = Fin (1 / 2), confidence_gap = Fin 0,
        face_detected = True, face_box = Some (0, 0, 1, 1), authorized = False,
        top_predictions = [(''Bob'', Fin (1 / 2)), (''Alice'', Fin (1 / 2))],
        rejection_reasons = [''confidence_too_low_50.00%<80%'', ''gap_too_small_0.00%<20%'']\<rparr> \<and>
   predict (demo_numerics reversed_ties)
     (demo_system [''Alice'', ''Bob''] [1 / 2, 1 / 2] [(0, 0, 1, 1)])
     demo_frame (Fin (80 / 100)) (Fin (20 / 100)) =
   Inr \<lparr>name = ''Desconocido'', confidence = Fin (1 / 2), confidence_gap = Fin 0,
        face_detected = True, face_box = Some (0, 0, 1, 1), authorized = False,
        top_predictions = [(''Alice'', Fin (1 / 2)), (''Bob'', Fin (1 / 2))],
        rejection_reasons = [''confidence_too_low_50.00%<80%'', ''gap_too_small_0.00%<20%'']\<rparr>"
proof (intro conjI)
  show "classes (demo_system [''Alice'', ''Bob''] [1 / 2, 1 / 2] [(0, 0, 1, 1)])
          = [''Alice'', ''Bob'']"
    by (simp add: demo_system_def)
qed (rule demo_predict_tie, rule demo_predict_tie_reversed)

theorem top_predictions_ranked_witness:
  "detect_face (demo_system [''Alice'', ''Bob'', ''Carol'', ''Dora'']
       [3 / 10, 3 / 10, 1 / 10, 3 / 10] [(0, 0, 1, 1)]) demo_frame =
     Inr (Some ([[(30, 20, 10)]], (0, 0, 1, 1))) \<and>
   top_3_indices (demo_numerics reversed_ties) (map Fin [3 / 10, 3 / 10, 1 / 10, 3 / 10])
     = [0, 1, 3] \<and>
   (case predict (demo_numerics reversed_ties)
           (demo_system [''Alice'', ''Bob'', ''Carol'', ''Dora'']
              [3 / 10, 3 / 10, 1 / 10, 3 / 10] [(0, 0, 1, 1)]) demo_frame
           (Fin (80 / 100)) (Fin (20 / 100)) of
      Inl e \<Rightarrow> False
    | Inr d \<Rightarrow>
        top_predictions d =
          [(''Alice'', Fin (3 / 10)), (''Bob'', Fin (3 / 10)), (''Dora'', Fin (3 / 10))] \<and>
        map snd (top_predictions d) = map Fin [3 / 10, 3 / 10, 3 / 10] \<and>
        length (top_predictions d) \<le> 3)"
proof -
  have t: "top_3_indices (demo_numerics reversed_ties) (map Fin [3 / 10, 3 / 10, 1 / 10, 3 / 10])
             = [0, 1, 3]"
    by (simp add: top_3_indices_def argsort_def demo_numerics_sel reversed_ties_def)
  show ?thesis
    using top_predictions_ranked [OF demo_detect demo_system_sel(1) demo_predict_four]
    unfolding demo_predict_four demo_detect demo_system_sel t demo_ranked by simp
qed





text \<open>
  Claim C6, as amended. The verification view calls \<^verbatim>\<open>predict\<close> with threshold 0.75
  and, by the keyword default, the minimum gap 0.20, and answers the decision's
  \<open>authorized\<close>: it holds exactly when a face is detected and neither test of
  \<^verbatim>\<open>predict\<close> fires, the confidence is not below 0.75 and the gap is not below 0.20
  (on NaN neither test fires). The login view applies 0.80 and 0.20 in the same way. On
  a distribution of finite probabilities the confidence is the largest probability and
  the gap the difference to the second largest, in both views. The example after the
  theorem shows the claim as written to fail: on the output (0.85, 0.70, 0.02) the
  verification view rejects, for the small gap alone.
\<close>

theorem verify_applies_default_gap:
  assumes "read_frame env body = Inr img"
    and "predict nm sys img (Fin (75 / 100)) (Fin (20 / 100)) = Inr dv"
    and "predict nm sys img (Fin (80 / 100)) (Fin (20 / 100)) = Inr dl"
  shows "verify_face_stream env ld nm (Some sys) body =
           (JsonResponse
              [(''success'', JBool True), (''name'', JStr (name dv)),
               (''confidence'', JNum (confidence dv)),
               (''authorized'', JBool (authorized dv)),
               (''face_detected'', JBool (face_detected dv))] 200, Some sys) \<and>
         authorized dv =
           (face_detected dv \<and> \<not> flt (confidence dv) (Fin (75 / 100)) \<and>
            \<not> flt (confidence_gap dv) (Fin (20 / 100))) \<and>
         fst (recognize_face env ld nm (Some sys) ses body) =
           (if authorized dl \<and> name dl \<noteq> ''Desconocido'' then welcome_response dl
            else denied_response dl) \<and>
         authorized dl =
           (face_detected dl \<and> \<not> flt (confidence dl) (Fin (80 / 100)) \<and>
            \<not> flt (confidence_gap dl) (Fin (20 / 100))) \<and>
         (\<forall>face fb q. detect_face sys img = Inr (Some (face, fb)) \<longrightarrow>
            classifier_predict sys (facenet_embeddings sys face) = map Fin q \<longrightarrow>
            confidence dv = Fin (hd (ranked_probabilities q)) \<and>
            confidence_gap dv = top2_gap nm q \<and>
            confidence dl = confidence dv \<and> confidence_gap dl = confidence_gap dv)"
proof -
  note 1 = verify_face_stream_Inr [OF assms(1,2), of ld]
  have 2: "fst (recognize_face env ld nm (Some sys) ses body) =
           (if authorized dl \<and> name dl \<noteq> ''Desconocido'' then welcome_response dl
            else denied_response dl)"
    using recognize_face_Inr [OF assms(1,3), of ld ses] by simp
  note 3 = predict_authorized_eq [OF assms(2)]
  note 4 = predict_authorized_eq [OF assms(3)]
  have 5: "confidence dv = Fin (hd (ranked_probabilities q)) \<and>
            confidence_gap dv = top2_gap nm q \<and>
            confidence dl = confidence dv \<and> confidence_gap dl = confidence_gap dv"
    if det: "detect_face sys img = Inr (Some (face, fb))"
      and dist: "classifier_predict sys (facenet_embeddings sys face) = map Fin q"
    for face fb q
  proof -
    have dv: "decide nm (classes sys) (map Fin q) fb (Fin (75 / 100)) (Fin (20 / 100)) = Inr dv"
      using assms(2) det dist by (simp add: predict_def Let_def)
    have dl: "decide nm (classes sys) (map Fin q) fb (Fin (80 / 100)) (Fin (20 / 100)) = Inr dl"
      using assms(3) det dist by (simp add: predict_def Let_def)
    from decide_finite [OF dv] decide_finite [OF dl] show ?thesis by simp
  qed
  show ?thesis using 1 2 3 4 5 by blast
qed

theorem verify_gap_counterexample:
  "fle (Fin (75 / 100)) (Fin (85 / 100)) \<and>
   predict (demo_numerics stable_ties)
     (demo_system [''Alice'', ''Bob'', ''Carol''] [85 / 100, 70 / 100, 2 / 100] [(0, 0, 1, 1)])
     demo_frame (Fin (75 / 100)) default_min_confidence_gap =
   Inr \<lparr>name = ''Desconocido'', confidence = Fin (85 / 100), confidence_gap = Fin (15 / 100),
        face_detected = True, face_box = Some (0, 0, 1, 1), authorized = False,
        top_predictions =
          [(''Alice'', Fin (85 / 100)), (''Bob'', Fin (70 / 100)), (''Carol'', Fin (2 / 100))],
        rejection_reasons = [''gap_too_small_15.00%<20%'']\<rparr> \<and>
   verify_face_stream demo_env
       (demo_loaders [''Alice'', ''Bob'', ''Carol''] [85 / 100, 70 / 100, 2 / 100] [(0, 0, 1, 1)])
       (demo_numerics stable_ties)
       (Some (demo_system [''Alice'', ''Bob'', ''Carol''] [85 / 100, 70 / 100, 2 / 100]
                [(0, 0, 1, 1)])) ''frame'' =
     (JsonResponse
        [(''success'', JBool True), (''name'', JStr ''Desconocido''),
         (''confidence'', JNum (Fin (85 / 100))), (''authorized'', JBool False),
         (''face_detected'', JBool True)] 200,
      Some (demo_system [''Alice'', ''Bob'', ''Carol''] [85 / 100, 70 / 100, 2 / 100]
              [(0, 0, 1, 1)]))"
proof -
  have v: "predict (demo_numerics stable_ties)
              (demo_system [''Alice'', ''Bob'', ''Carol''] [85 / 100, 70 / 100, 2 / 100]
              [(0, 0, 1, 1)]) demo_frame (Fin (75 / 100)) (Fin (20 / 100)) =
      Inr \<lparr>name = ''Desconocido'', confidence = Fin (85 / 100), confidence_gap = Fin (15 / 100),
        face_detected = True, face_box = Some (0, 0, 1, 1), authorized = False,
        top_predictions =
          [(''Alice'', Fin (85 / 100)), (''Bob'', Fin (70 / 100)), (''Carol'', Fin (2 / 100))],
        rejection_reasons = [''gap_too_small_15.00%<20%'']\<rparr>"
    by (rule demo_predict_gap) simp
  have d: "default_min_confidence_gap = Fin (20 / 100)"
    by (simp add: default_min_confidence_gap_def)
  show ?thesis
    unfolding d verify_face_stream_Inr [OF demo_read_frame v] v by (simp add: fle_def)
qed

theorem verify_applies_default_gap_witness:
  "read_frame demo_env ''frame'' = Inr demo_frame \<and>
   verify_face_stream demo_env
       (demo_loaders [''Alice'', ''Bob'', ''Carol''] [92 / 100, 5 / 100, 3 / 100] [(0, 0, 1, 1)])
       (demo_numerics stable_ties)
       (Some (demo_system [''Alice'', ''Bob'', ''Carol''] [92 / 100, 5 / 100, 3 / 100]
                [(0, 0, 1, 1)])) ''frame'' =
     (JsonResponse
        [(''success'', JBool True), (''name'', JStr ''Alice''),
         (''confidence'', JNum (Fin (92 / 100))), (''authorized'', JBool True),
         (''face_detected'', JBool True)] 200,
      Some (demo_system [''Alice'', ''Bob'', ''Carol''] [92 / 100, 5 / 100, 3 / 100]
              [(0, 0, 1, 1)])) \<and>
   (case predict (demo_numerics stable_ties)
           (demo_system [''Alice'', ''Bob'', ''Carol''] [92 / 100, 5 / 100, 3 / 100]
            [(0, 0, 1, 1)]) demo_frame (Fin (80 / 100)) (Fin (20 / 100)) of
      Inl e \<Rightarrow> False
    | Inr d \<Rightarrow>
        fst (recognize_face demo_env
               (demo_loaders [''Alice'', ''Bob'', ''Carol''] [92 / 100, 5 / 100, 3 / 100]
                  [(0, 0, 1, 1)])
               (demo_numerics stable_ties)
               (Some (demo_system [''Alice'', ''Bob'', ''Carol''] [92 / 100, 5 / 100, 3 / 100]
                        [(0, 0, 1, 1)])) Map.empty ''frame'') = welcome_response d) \<and>
   verify_face_stream demo_env (demo_loaders [''Alice''] [] [(0, 0, 1, 1)])
       (demo_numerics stable_ties)
       (Some ((demo_system [''Alice''] [] [(0, 0, 1, 1)])\<lparr>classifier_predict := (\<lambda>_. [NaN])\<rparr>))
       ''frame'' =
     (JsonResponse
        [(''success'', JBool True), (''name'', JStr ''Alice''),
         (''confidence'', JNum NaN), (''authorized'', JBool True),
         (''face_detected'', JBool True)] 200,
      Some ((demo_system [''Alice''] [] [(0, 0, 1, 1)])\<lparr>classifier_predict := (\<lambda>_. [NaN])\<rparr>))"
proof -
  have v: "predict (demo_numerics stable_ties)
              (demo_system [''Alice'', ''Bob'', ''Carol''] [92 / 100, 5 / 100, 3 / 100]
              [(0, 0, 1, 1)]) demo_frame (Fin (75 / 100)) (Fin (20 / 100)) =
      Inr \<lparr>name = ''Alice'', confidence = Fin (92 / 100), confidence_gap = Fin (87 / 100),
        face_detected = True, face_box = Some (0, 0, 1, 1), authorized = True,
        top_predictions =
          [(''Alice'', Fin (92 / 100)), (''Bob'', Fin (5 / 100)), (''Carol'', Fin (3 / 100))],
        rejection_reasons = [''authorized'']\<rparr>"
    by (simp add: predict_eval demo_numerics_sel stable_ties_def)
  have n75: "predict (demo_numerics stable_ties)
     ((demo_system [''Alice''] [] [(0, 0, 1, 1)])\<lparr>classifier_predict := (\<lambda>_. [NaN])\<rparr>)
     demo_frame (Fin (75 / 100)) (Fin (20 / 100)) =
   Inr \<lparr>name = ''Alice'', confidence = NaN, confidence_gap = NaN,
        face_detected = True, face_box = Some (0, 0, 1, 1), authorized = True,
        top_predictions = [(''Alice'', NaN)], rejection_reasons = [''authorized'']\<rparr>"
    by (rule demo_predict_nan) simp
  have n80: "predict (demo_numerics stable_ties)
     ((demo_system [''Alice''] [] [(0, 0, 1, 1)])\<lparr>classifier_predict := (\<lambda>_. [NaN])\<rparr>)
     demo_frame (Fin (80 / 100)) (Fin (20 / 100)) =
   Inr \<lparr>name = ''Alice'', confidence = NaN, confidence_gap = NaN,
        face_detected = True, face_box = Some (0, 0, 1, 1), authorized = True,
        top_predictions = [(''Alice'', NaN)], rejection_reasons = [''authorized'']\<rparr>"
    by (rule demo_predict_nan) simp
  show ?thesis
    using verify_applies_default_gap [OF demo_read_frame v demo_predict_alice,
        of "demo_loaders [''Alice'', ''Bob'', ''Carol''] [92 / 100, 5 / 100, 3 / 100] [(0, 0, 1, 1)]"
           Map.empty]
      verify_applies_default_gap [OF demo_read_frame n75 n80,
        of "demo_loaders [''Alice''] [] [(0, 0, 1, 1)]" Map.empty]
    unfolding demo_predict_alice demo_read_frame by simp
qed

text \<open>
  Claim C7. For every frame and every box, the rows and columns that the padded crop
  reads lie inside the frame, and the four bounds of the crop are clamped: top and left
  are not negative, bottom and right do not exceed the height and the width.
\<close>

theorem crop_within_frame:
  "(\<forall>r\<in>set (crop_rows (cvtColor_BGR2RGB img) f). r < shape0 img) \<and>
   (\<forall>c\<in>set (crop_cols (cvtColor_BGR2RGB img) f). c < shape1 img) \<and>
   (case crop_bounds (cvtColor_BGR2RGB img) f of
      (top', left', bottom', right') \<Rightarrow>
        0 \<le> top' \<and> 0 \<le> left' \<and> bottom' \<le> int (shape0 img) \<and> right' \<le> int (shape1 img))"
proof -
  have "\<forall>r\<in>set (crop_rows (cvtColor_BGR2RGB img) f). r < shape0 img"
    using crop_rows_bound [of _ "cvtColor_BGR2RGB img" f] by (simp add: shape_cvtColor_BGR2RGB)
  moreover have "\<forall>c\<in>set (crop_cols (cvtColor_BGR2RGB img) f). c < shape1 img"
    using crop_cols_bound [of _ "cvtColor_BGR2RGB img" f] by (simp add: shape_cvtColor_BGR2RGB)
  moreover have "case crop_bounds (cvtColor_BGR2RGB img) f of
      (top', left', bottom', right') \<Rightarrow>
        0 \<le> top' \<and> 0 \<le> left' \<and> bottom' \<le> int (shape0 img) \<and> right' \<le> int (shape1 img)"
    using crop_bounds_clamped [of "cvtColor_BGR2RGB img" f]
    by (auto simp: shape_cvtColor_BGR2RGB split: prod.splits)
  ultimately show ?thesis by blast
qed

theorem crop_within_frame_witness:
  "list_all (\<lambda>r. r < shape0 far_frame) (crop_rows (cvtColor_BGR2RGB far_frame) (35, 5, 60, 60)) \<and>
   list_all (\<lambda>c. c < shape1 far_frame) (crop_cols (cvtColor_BGR2RGB far_frame) (35, 5, 60, 60)) \<and>
   crop_bounds (cvtColor_BGR2RGB far_frame) (35, 5, 60, 60) = (0, 15, 85, 100) \<and>
   shape0 far_frame = 100 \<and> shape1 far_frame = 100 \<and>
   length (crop_rows (cvtColor_BGR2RGB far_frame) (35, 5, 60, 60)) = 85 \<and>
   length (crop_cols (cvtColor_BGR2RGB far_frame) (35, 5, 60, 60)) = 85"
  using crop_within_frame [of far_frame "(35, 5, 60, 60)"]
  by (simp add: list_all_iff far_frame_bounds far_frame_shape crop_rows_def crop_cols_def
        slice_indices_def slice_bound_def shape_cvtColor_BGR2RGB)

text \<open>
  Claim C8. \<^verbatim>\<open>draw_result\<close> never writes to the frame it is given: after the call the
  input array, and every other array that existed before, is unchanged; the store has
  exactly one more array; and the reference returned is that new array, different from
  the input. This holds on the no-face path, on the face path, and when the call raises.
\<close>

theorem draw_result_keeps_frame:
  assumes "img < length st" and "draw_result cv nm st img result = (st', r)"
  shows "st' ! img = st ! img \<and> take (length st) st' = st \<and> length st' = Suc (length st) \<and>
         (case r of Inr out \<Rightarrow> out = length st \<and> out \<noteq> img \<and> out < length st'
          | Inl e \<Rightarrow> e = TypeError)"
  using assms
  by (auto simp: draw_result_def ndarray_copy_def cv2_putText_def cv2_rectangle_def Let_def
        nth_append split: if_splits option.splits prod.splits)

theorem draw_result_keeps_frame_witness:
  "(0 :: nat) < length [demo_frame] \<and>
   draw_result demo_drawing (demo_numerics stable_ties) [demo_frame] 0 no_face_decision =
     ([demo_frame, [[(0, 0, 255)]]], Inr 1) \<and>
   [demo_frame, [[(0, 0, 255)]]] ! 0 = [demo_frame] ! 0 \<and>
   draw_result demo_drawing (demo_numerics stable_ties) [demo_frame] 0
     \<lparr>name = ''Alice'', confidence = Fin (92 / 100), confidence_gap = Fin (87 / 100),
      face_detected = True, face_box = Some (0, 0, 1, 1), authorized = True,
      top_predictions =
        [(''Alice'', Fin (92 / 100)), (''Bob'', Fin (5 / 100)), (''Carol'', Fin (3 / 100))],
      rejection_reasons = [''authorized'']\<rparr> =
     ([demo_frame, [[(255, 255, 255)]]], Inr 1) \<and>
   [demo_frame, [[(255, 255, 255)]]] ! 0 = [demo_frame] ! 0"
proof -
  have l: "(0 :: nat) < length [demo_frame]" by simp
  from draw_result_keeps_frame [OF l demo_draw_no_face]
    draw_result_keeps_frame [OF l demo_draw_face] demo_draw_no_face demo_draw_face
  show ?thesis by simp
qed

text \<open>
  Claim C9. With exactly one label configured, every decision that \<^verbatim>\<open>predict\<close>
  returns has \<open>confidence_gap\<close> equal to \<open>confidence\<close>.
\<close>

theorem single_label_gap:
  assumes "length (classes sys) = 1"
    and "predict nm sys img threshold min_confidence_gap = Inr d"
  shows "confidence_gap d = confidence d"
  using assms(2)
proof (cases rule: predict_Inr)
  case no_face
  then show ?thesis by (simp add: no_face_decision_def)
next
  case (face face fb)
  let ?p = "classifier_predict sys (facenet_embeddings sys face)"
  from face(2) obtain i rest where ir: "top_3_indices nm ?p = i # rest"
    and bound: "\<forall>k\<in>set (i # rest). k < length (classes sys)"
    and gap: "confidence_gap d = gap_of nm ?p i rest" and conf: "confidence d = ?p ! i"
    by (rule decide_Inr) simp
  have "length (i # rest) \<le> 1"
    using distinct_bounded_length [OF distinct_top_3_indices [of nm ?p], of 1] bound ir assms(1)
    by simp
  then have "rest = []" by simp
  then show ?thesis using gap conf by (simp add: gap_of_def)
qed

theorem single_label_gap_witness:
  "length (classes (demo_system [''Alice''] [9 / 10] [(0, 0, 1, 1)])) = 1 \<and>
   (case predict (demo_numerics stable_ties) (demo_system [''Alice''] [9 / 10] [(0, 0, 1, 1)])
           demo_frame (Fin (80 / 100)) (Fin (20 / 100)) of
      Inl e \<Rightarrow> False
    | Inr d \<Rightarrow> confidence_gap d = confidence d \<and> confidence d = Fin (9 / 10) \<and> authorized d)"
proof -
  have l: "length (classes (demo_system [''Alice''] [9 / 10] [(0, 0, 1, 1)])) = 1"
    by (simp add: demo_system_def)
  from single_label_gap [OF l demo_predict_single] l show ?thesis
    unfolding demo_predict_single by simp
qed

text \<open>
  Claim C10, as amended. An authorized decision of \<^verbatim>\<open>predict\<close> is named after the
  label at the top index, the first of its top predictions and a label of the label set;
  on a distribution of finite probabilities that index is one of largest probability.
  The name is \<open>Desconocido\<close> only when that label is: when no enrolled label is \<open>Desconocido\<close>, the name is not
  \<open>Desconocido\<close>, and the test of the login view, authorized and the name not
  \<open>Desconocido\<close>, is equivalent to authorized alone. The example after the theorem
  shows the claim as written, the name never \<open>Desconocido\<close>, to fail: with a label
  \<open>Desconocido\<close> enrolled and most probable, the decision is authorized under that name,
  and the login view opens no session.
\<close>

theorem authorized_name_is_top_label:
  assumes "predict nm sys img threshold min_confidence_gap = Inr d"
    and "authorized d"
  shows "name d = fst (hd (top_predictions d)) \<and>
         name d \<in> set (classes sys) \<and>
         (''Desconocido'' \<notin> set (classes sys) \<longrightarrow>
            name d \<noteq> ''Desconocido'' \<and>
            (authorized d \<and> name d \<noteq> ''Desconocido'') = authorized d) \<and>
         (\<forall>face fb. detect_face sys img = Inr (Some (face, fb)) \<longrightarrow>
            name d =
              classes sys !
                hd (top_3_indices nm (classifier_predict sys (facenet_embeddings sys face))) \<and>
            (\<forall>q. classifier_predict sys (facenet_embeddings sys face) = map Fin q \<longrightarrow>
               hd (top_3_indices nm (map Fin q)) < length q \<and>
               (\<forall>x\<in>set q. x \<le> q ! hd (top_3_indices nm (map Fin q)))))"
  using assms(1)
proof (cases rule: predict_Inr)
  case no_face
  then show ?thesis using assms(2) by (simp add: no_face_decision_def)
next
  case (face face fb)
  let ?p = "classifier_predict sys (facenet_embeddings sys face)"
  from face(2) have 1: "name d = fst (hd (top_predictions d)) \<and> name d \<in> set (classes sys)"
    by (rule decide_Inr) (use assms(2) in auto)
  from face(2) have 2: "name d = classes sys ! hd (top_3_indices nm ?p)"
    by (rule decide_Inr) (use assms(2) in auto)
  have 3: "hd (top_3_indices nm (map Fin q)) < length q \<and>
           (\<forall>x\<in>set q. x \<le> q ! hd (top_3_indices nm (map Fin q)))"
    if dist: "?p = map Fin q" for q
  proof -
    have dec: "decide nm (classes sys) (map Fin q) fb threshold min_confidence_gap = Inr d"
      using face(2) dist by simp
    from decide_finite [OF dec] ranked_probabilities_hd_max [of _ q] show ?thesis by simp
  qed
  have 4: "name d = classes sys ! hd (top_3_indices nm (classifier_predict sys
             (facenet_embeddings sys face'))) \<and>
           (\<forall>q. classifier_predict sys (facenet_embeddings sys face') = map Fin q \<longrightarrow>
               hd (top_3_indices nm (map Fin q)) < length q \<and>
               (\<forall>x\<in>set q. x \<le> q ! hd (top_3_indices nm (map Fin q))))"
    if "detect_face sys img = Inr (Some (face', fb'))" for face' fb'
  proof -
    have "face' = face" using that face(1) by simp
    then show ?thesis using 2 3 by simp
  qed
  show ?thesis using 1 4 assms(2) by auto
qed

theorem sentinel_label_counterexample:
  "predict (demo_numerics stable_ties)
     (demo_system [''Desconocido'', ''Bob''] [7 / 8, 1 / 8] [(0, 0, 1, 1)])
     demo_frame (Fin (80 / 100)) (Fin (20 / 100)) =
   Inr \<lparr>name = ''Desconocido'', confidence = Fin (7 / 8), confidence_gap = Fin (6 / 8),
        face_detected = True, face_box = Some (0, 0, 1, 1), authorized = True,
        top_predictions = [(''Desconocido'', Fin (7 / 8)), (''Bob'', Fin (1 / 8))],
        rejection_reasons = [''authorized'']\<rparr> \<and>
   snd (snd (recognize_face demo_env
     (demo_loaders [''Desconocido'', ''Bob''] [7 / 8, 1 / 8] [(0, 0, 1, 1)])
     (demo_numerics stable_ties)
     (Some (demo_system [''Desconocido'', ''Bob''] [7 / 8, 1 / 8] [(0, 0, 1, 1)]))
     Map.empty ''frame'')) ''authenticated'' = None"
proof (intro conjI)
  show "snd (snd (recognize_face demo_env
     (demo_loaders [''Desconocido'', ''Bob''] [7 / 8, 1 / 8] [(0, 0, 1, 1)])
     (demo_numerics stable_ties)
     (Some (demo_system [''Desconocido'', ''Bob''] [7 / 8, 1 / 8] [(0, 0, 1, 1)]))
     Map.empty ''frame'')) ''authenticated'' = None"
    unfolding recognize_face_Inr [OF demo_read_frame demo_predict_sentinel_label] by simp
qed (rule demo_predict_sentinel_label)

theorem authorized_name_is_top_label_witness:
  "detect_face (demo_system [''Alice'', ''Bob'', ''Carol''] [92 / 100, 5 / 100, 3 / 100]
       [(0, 0, 1, 1)]) demo_frame = Inr (Some ([[(30, 20, 10)]], (0, 0, 1, 1))) \<and>
   ''Desconocido'' \<notin> set (classes (demo_system [''Alice'', ''Bob'', ''Carol'']
       [92 / 100, 5 / 100, 3 / 100] [(0, 0, 1, 1)])) \<and>
   top_3_indices (demo_numerics stable_ties) (map Fin [92 / 100, 5 / 100, 3 / 100]) = [0, 1, 2] \<and>
   (case predict (demo_numerics stable_ties)
           (demo_system [''Alice'', ''Bob'', ''Carol''] [92 / 100, 5 / 100, 3 / 100]
            [(0, 0, 1, 1)]) demo_frame (Fin (80 / 100)) (Fin (20 / 100)) of
      Inl e \<Rightarrow> False
    | Inr d \<Rightarrow> authorized d \<and> name d = ''Alice'' \<and> name d = fst (hd (top_predictions d)) \<and>
               name d \<noteq> ''Desconocido'' \<and>
               name d = [''Alice'', ''Bob'', ''Carol''] ! 0)"
proof -
  have n: "''Desconocido'' \<notin> set (classes (demo_system [''Alice'', ''Bob'', ''Carol'']
       [92 / 100, 5 / 100, 3 / 100] [(0, 0, 1, 1)]))"
    by (simp add: demo_system_def)
  have a: "authorized \<lparr>name = ''Alice'', confidence = Fin (92 / 100),
        confidence_gap = Fin (87 / 100),
        face_detected = True, face_box = Some (0, 0, 1, 1), authorized = True,
        top_predictions =
          [(''Alice'', Fin (92 / 100)), (''Bob'', Fin (5 / 100)), (''Carol'', Fin (3 / 100))],
        rejection_reasons = [''authorized'']\<rparr>"
    by simp
  have t: "top_3_indices (demo_numerics stable_ties) (map Fin [92 / 100, 5 / 100, 3 / 100])
             = [0, 1, 2]"
    by (simp add: top_3_indices_def argsort_def demo_numerics_sel stable_ties_def)
  from authorized_name_is_top_label [OF demo_predict_alice a] n
  show ?thesis
    unfolding demo_predict_alice demo_detect demo_system_sel t by simp
qed

end
